theory Spec2Isabelle
  imports Complex_Main
begin

section \<open>Envelope-based anomaly detection for vibration signals\<close>

text \<open>
  The development embeds the functions of the notebook
  \<^verbatim>\<open>module_7_notebook.ipynb\<close> that carry its logic: \<^verbatim>\<open>bandpass_filter\<close>,
  \<^verbatim>\<open>preprocessing\<close>, \<^verbatim>\<open>create_single_envelope\<close>, \<^verbatim>\<open>train_envelope\<close> and
  \<^verbatim>\<open>check_parts\<close>.

  Numbers. The notebook computes with numpy's float64. \<^verbatim>\<open>check_parts\<close> is embedded
  twice. In \<open>check_parts_fl\<close> the floats and every operation on them are parameters, so
  what is proved of it holds of float64 as it is. Everywhere else a float is an exact
  real or NaN: rounding, overflow and the infinities are left out, NaN is kept because
  the code reaches it (the mean of an empty array) and because every comparison with NaN
  is false. That instance serves for the properties that do not rest on the values of
  the arithmetic: the order of the results, the independence of the test data, the clamp
  of the requested count, NaN on empty input. Samples of a signal are reals there.
\<close>

subsection \<open>Floats, arrays and Python errors\<close>

datatype npfloat = Fin real | NaN

fun np_add :: "npfloat \<Rightarrow> npfloat \<Rightarrow> npfloat" where
  "np_add (Fin a) (Fin b) = Fin (a + b)"
| "np_add _ _ = NaN"

fun np_mul :: "npfloat \<Rightarrow> npfloat \<Rightarrow> npfloat" where
  "np_mul (Fin a) (Fin b) = Fin (a * b)"
| "np_mul _ _ = NaN"

text \<open>\<^verbatim>\<open>a > b\<close> on floats: false as soon as one side is NaN.\<close>

fun np_gt :: "npfloat \<Rightarrow> npfloat \<Rightarrow> bool" where
  "np_gt (Fin a) (Fin b) = (b < a)"
| "np_gt _ _ = False"

fun np_sqrt :: "npfloat \<Rightarrow> npfloat" where
  "np_sqrt (Fin a) = (if a < 0 then NaN else Fin (sqrt a))"
| "np_sqrt NaN = NaN"

text \<open>
  What \<^verbatim>\<open>train_envelope\<close> returns and \<^verbatim>\<open>check_parts\<close> receives is a numpy value: a
  one-dimensional array, or a zero-dimensional scalar (\<^verbatim>\<open>np.mean([], axis=0)\<close> is the
  scalar \<^verbatim>\<open>nan\<close>).
\<close>

datatype ndarray = Scalar npfloat | Array "real list"

text \<open>
  The exceptions that can leave the functions: Python's \<^verbatim>\<open>IndexError\<close> of a list
  subscript, numpy's \<^verbatim>\<open>ValueError\<close> for a list of arrays of different lengths
  (inhomogeneous shape), and whatever a call into scipy.signal raises, with its message.
\<close>

datatype error = IndexError | InhomogeneousShape | SciPyError string

text \<open>\<^verbatim>\<open>xs[i]\<close> on a Python list: a negative subscript counts from the end.\<close>

definition py_index :: "'a list \<Rightarrow> int \<Rightarrow> error + 'a" where
  "py_index xs i =
     (if 0 \<le> i \<and> i < int (length xs) then Inr (xs ! nat i)
      else if i < 0 \<and> - int (length xs) \<le> i then Inr (xs ! nat (int (length xs) + i))
      else Inl IndexError)"

subsection \<open>numpy: mean and standard deviation\<close>

text \<open>
  \<^verbatim>\<open>np.mean(a)\<close> over all elements: the sum divided by the number of elements; on an
  empty array numpy warns and returns \<^verbatim>\<open>nan\<close>, it does not raise.
\<close>

fun np_mean :: "ndarray \<Rightarrow> npfloat" where
  "np_mean (Scalar v) = v"
| "np_mean (Array xs) = (if xs = [] then NaN else Fin (sum_list xs / real (length xs)))"

text \<open>
  \<^verbatim>\<open>np.std(a)\<close> with its default arguments (\<^verbatim>\<open>ddof=0\<close>), as numpy documents it:
  \<^verbatim>\<open>sqrt(mean(abs(a - a.mean())**2))\<close>.
\<close>

fun np_std :: "ndarray \<Rightarrow> npfloat" where
  "np_std (Scalar v) = (case v of NaN \<Rightarrow> NaN | Fin x \<Rightarrow> Fin 0)"
| "np_std (Array xs) =
     (case np_mean (Array xs) of
        NaN \<Rightarrow> NaN
      | Fin m \<Rightarrow> np_sqrt (np_mean (Array (map (\<lambda>x. \<bar>x - m\<bar> ^ 2) xs))))"

text \<open>
  \<^verbatim>\<open>np.mean(rows, axis=0)\<close> on a Python list of one-dimensional arrays: the list becomes
  a matrix of one row per array and the result is the mean of each column. An empty list
  gives the scalar \<^verbatim>\<open>nan\<close> (with a warning); rows of different lengths raise.
\<close>

definition np_mean_axis0 :: "real list list \<Rightarrow> error + ndarray" where
  "np_mean_axis0 rows =
     (case rows of
        [] \<Rightarrow> Inr (Scalar NaN)
      | r # rs \<Rightarrow>
          if \<forall>x \<in> set rs. length x = length r
          then Inr (Array (map (\<lambda>j. (\<Sum>x\<leftarrow>rows. x ! j) / real (length rows))
                               [0..<length r]))
          else Inl InhomogeneousShape)"

subsection \<open>The library functions and the globals of the notebook\<close>

text \<open>
  \<^verbatim>\<open>scipy.signal.butter\<close>, \<^verbatim>\<open>filtfilt\<close> and \<^verbatim>\<open>hilbert\<close> are not code of the notebook:
  they are parameters. Each returns its result or the message of the exception it raises.
  \<^verbatim>\<open>butter\<close> takes the order, the pair of cutoffs and \<^verbatim>\<open>fs\<close> (the call fixes
  \<^verbatim>\<open>btype='band'\<close>) and returns the coefficients \<^verbatim>\<open>(b, a)\<close>.
\<close>

record signal_lib =
  butter :: "int \<Rightarrow> real \<times> real \<Rightarrow> real \<Rightarrow> string + (real list \<times> real list)"
  filtfilt :: "real list \<Rightarrow> real list \<Rightarrow> real list \<Rightarrow> string + real list"
  hilbert :: "real list \<Rightarrow> string + complex list"

text \<open>
  The module-level names the functions read. The notebook sets
  \<^verbatim>\<open>sampling_rate = 25600\<close> and \<^verbatim>\<open>CONFIDENCE_LVL = 0.95\<close> and loads the two corpora
  from files.
\<close>

record globals =
  sampling_rate :: real
  CONFIDENCE_LVL :: real
  train_data :: "real list list"
  test_data :: "real list list"

subsection \<open>Filtering and envelope of one signal\<close>

definition bandpass_filter ::
  "signal_lib \<Rightarrow> globals \<Rightarrow> real list \<Rightarrow> real \<Rightarrow> real \<Rightarrow> int \<Rightarrow> error + real list" where
  "bandpass_filter lib g data lowcut highcut order =
     (case butter lib order (lowcut, highcut) (sampling_rate g) of
        Inl msg \<Rightarrow> Inl (SciPyError msg)
      | Inr (b, a) \<Rightarrow>
          (case filtfilt lib b a data of
             Inl msg \<Rightarrow> Inl (SciPyError msg)
           | Inr filtered \<Rightarrow> Inr filtered))"

definition preprocessing :: "signal_lib \<Rightarrow> globals \<Rightarrow> real list \<Rightarrow> error + real list" where
  "preprocessing lib g input_data =
     (case bandpass_filter lib g input_data 1000 10000 4 of
        Inl e \<Rightarrow> Inl e
      | Inr input_data_filtered \<Rightarrow> Inr (map abs input_data_filtered))"

definition create_single_envelope :: "signal_lib \<Rightarrow> real list \<Rightarrow> error + real list" where
  "create_single_envelope lib input_signal =
     (case hilbert lib input_signal of
        Inl msg \<Rightarrow> Inl (SciPyError msg)
      | Inr transformed_signal \<Rightarrow> Inr (map cmod transformed_signal))"

subsection \<open>Training the reference envelope\<close>

text \<open>\<^verbatim>\<open>str(n)\<close> for a length, as the f-string of the notice formats it.\<close>

definition digit_char :: "nat \<Rightarrow> char" where
  "digit_char d = ''0123456789'' ! d"

function str_nat :: "nat \<Rightarrow> string" where
  "str_nat n = (if n < 10 then [digit_char n] else str_nat (n div 10) @ [digit_char (n mod 10)])"
  by pat_completeness auto
termination
  by (relation "measure id") auto

text \<open>
  The \<^verbatim>\<open>while i < n_parts\<close> loop: the state is \<^verbatim>\<open>i\<close> and \<^verbatim>\<open>single_envelopes\<close>; an
  exception in the body ends the loop with that exception.
\<close>

function envelope_loop ::
  "signal_lib \<Rightarrow> globals \<Rightarrow> int \<Rightarrow> int \<Rightarrow> real list list \<Rightarrow> error + real list list" where
  "envelope_loop lib g n_parts i single_envelopes =
     (if i < n_parts then
        (case py_index (train_data g) i of
           Inl e \<Rightarrow> Inl e
         | Inr data \<Rightarrow>
             (case preprocessing lib g data of
                Inl e \<Rightarrow> Inl e
              | Inr data_signal \<Rightarrow>
                  (case create_single_envelope lib data_signal of
                     Inl e \<Rightarrow> Inl e
                   | Inr env \<Rightarrow> envelope_loop lib g n_parts (i + 1) (single_envelopes @ [env]))))
      else Inr single_envelopes)"
  by pat_completeness auto
termination
  by (relation "measure (\<lambda>(lib, g, n_parts, i, single_envelopes). nat (n_parts - i))") auto

declare envelope_loop.simps [simp del]

text \<open>
  \<^verbatim>\<open>train_envelope(n_parts)\<close>. The result is the pair of what was printed and of what
  was returned or raised.
\<close>

definition train_envelope :: "signal_lib \<Rightarrow> globals \<Rightarrow> int \<Rightarrow> string list \<times> (error + ndarray)" where
  "train_envelope lib g n_parts =
     (let n_files = length (train_data g);
          clamp = int n_files < n_parts;
          n_parts' = (if clamp then int n_files else n_parts);
          printed = (if clamp then [''Only '' @ str_nat n_files @ '' files in directory!''] else [])
      in (printed,
          case envelope_loop lib g n_parts' 0 [] of
            Inl e \<Rightarrow> Inl e
          | Inr single_envelopes \<Rightarrow> np_mean_axis0 single_envelopes))"

subsection \<open>Checking the test parts\<close>

text \<open>
  \<^verbatim>\<open>scipy.stats.norm.ppf\<close>, the quantile function of the standard normal distribution,
  is a parameter \<open>ppf\<close> as well. The local variables of \<^verbatim>\<open>check_parts\<close> that
  the loop reads or writes are kept in a record.
\<close>

record check_locals =
  threshold :: npfloat
  data_bad_parts :: "real list list"
  indexes_bad_parts :: "nat list"

definition check_init :: "(real \<Rightarrow> npfloat) \<Rightarrow> globals \<Rightarrow> ndarray \<Rightarrow> check_locals" where
  "check_init ppf g envelope =
     (let mean_envelope = np_mean envelope;
          std_envelope = np_std envelope;
          z = ppf ((1 + CONFIDENCE_LVL g) / 2)
      in \<lparr>threshold = np_add mean_envelope (np_mul z std_envelope),
          data_bad_parts = [], indexes_bad_parts = []\<rparr>)"

text \<open>\<^verbatim>\<open>for idx, test_part in enumerate(data_test_parts)\<close>, from the index \<open>idx\<close> on.\<close>

fun check_loop :: "nat \<Rightarrow> real list list \<Rightarrow> check_locals \<Rightarrow> check_locals" where
  "check_loop idx [] s = s"
| "check_loop idx (test_part # rest) s =
     (let mean_test_part = np_mean (Array test_part)
      in check_loop (idx + 1) rest
           (if np_gt mean_test_part (threshold s)
            then s\<lparr>data_bad_parts := data_bad_parts s @ [test_part],
                   indexes_bad_parts := indexes_bad_parts s @ [idx]\<rparr>
            else s))"

definition check_parts_run ::
  "(real \<Rightarrow> npfloat) \<Rightarrow> globals \<Rightarrow> real list list \<Rightarrow> ndarray \<Rightarrow> check_locals" where
  "check_parts_run ppf g data_test_parts envelope =
     check_loop 0 data_test_parts (check_init ppf g envelope)"

text \<open>
  \<^verbatim>\<open>check_parts(data_test_parts, envelope)\<close>: no statement of it raises, so the result
  is always the returned pair.
\<close>

definition check_parts ::
  "(real \<Rightarrow> npfloat) \<Rightarrow> globals \<Rightarrow> real list list \<Rightarrow> ndarray
     \<Rightarrow> error + (real list list \<times> nat list)" where
  "check_parts ppf g data_test_parts envelope =
     (let s = check_parts_run ppf g data_test_parts envelope
      in Inr (data_bad_parts s, indexes_bad_parts s))"

subsection \<open>Checking the test parts, over any float arithmetic\<close>

text \<open>
  The same function with the numbers left open: the type \<open>'f\<close> of floats, the type
  \<open>'a\<close> of arrays and every operation \<^verbatim>\<open>check_parts\<close> applies to them are parameters.
  These are the conversion of the integer literals \<^verbatim>\<open>1\<close> and \<^verbatim>\<open>2\<close>, the float
  operations \<^verbatim>\<open>+\<close>, \<^verbatim>\<open>*\<close>, \<^verbatim>\<open>/\<close> and \<^verbatim>\<open>>\<close>, and the library functions
  \<^verbatim>\<open>np.mean\<close>, \<^verbatim>\<open>np.std\<close> and \<^verbatim>\<open>st.norm.ppf\<close>. Nothing is supposed of them, so
  float64 with its rounding, its infinities and its NaN is an instance.
\<close>

record ('f, 'a) float_lib =
  fl_of_int :: "int \<Rightarrow> 'f"
  fl_add :: "'f \<Rightarrow> 'f \<Rightarrow> 'f"
  fl_mul :: "'f \<Rightarrow> 'f \<Rightarrow> 'f"
  fl_div :: "'f \<Rightarrow> 'f \<Rightarrow> 'f"
  fl_gt :: "'f \<Rightarrow> 'f \<Rightarrow> bool"
  fl_mean :: "'a \<Rightarrow> 'f"
  fl_std :: "'a \<Rightarrow> 'f"
  fl_ppf :: "'f \<Rightarrow> 'f"

text \<open>The first four statements of \<^verbatim>\<open>check_parts\<close>, up to \<^verbatim>\<open>threshold\<close>.\<close>

definition check_threshold_fl :: "('f, 'a) float_lib \<Rightarrow> 'f \<Rightarrow> 'a \<Rightarrow> 'f" where
  "check_threshold_fl fl confidence_lvl envelope =
     (let mean_envelope = fl_mean fl envelope;
          std_envelope = fl_std fl envelope;
          z = fl_ppf fl (fl_div fl (fl_add fl (fl_of_int fl 1) confidence_lvl) (fl_of_int fl 2))
      in fl_add fl mean_envelope (fl_mul fl z std_envelope))"

text \<open>
  The loop over \<^verbatim>\<open>enumerate(data_test_parts)\<close>; it reads \<^verbatim>\<open>threshold\<close> and appends
  to the two lists.
\<close>

fun check_loop_fl ::
  "('f, 'a) float_lib \<Rightarrow> 'f \<Rightarrow> nat \<Rightarrow> 'a list \<Rightarrow> 'a list \<times> nat list \<Rightarrow> 'a list \<times> nat list" where
  "check_loop_fl fl thr idx [] (bad, idxs) = (bad, idxs)"
| "check_loop_fl fl thr idx (test_part # rest) (bad, idxs) =
     (let mean_test_part = fl_mean fl test_part
      in check_loop_fl fl thr (idx + 1) rest
           (if fl_gt fl mean_test_part thr then (bad @ [test_part], idxs @ [idx])
            else (bad, idxs)))"

definition check_parts_fl ::
  "('f, 'a) float_lib \<Rightarrow> 'f \<Rightarrow> 'a list \<Rightarrow> 'a \<Rightarrow> error + ('a list \<times> nat list)" where
  "check_parts_fl fl confidence_lvl data_test_parts envelope =
     Inr (check_loop_fl fl (check_threshold_fl fl confidence_lvl envelope) 0 data_test_parts ([], []))"

subsection \<open>Notions used in the statements\<close>

text \<open>The test of the loop body: the mean of the test part is above the threshold.\<close>

definition exceeds :: "npfloat \<Rightarrow> real list \<Rightarrow> bool" where
  "exceeds thr test_part = np_gt (np_mean (Array test_part)) thr"

text \<open>
  One pass of the body of the training loop on a signal: the envelope of the preprocessed
  signal, or the exception.
\<close>

definition signal_envelope :: "signal_lib \<Rightarrow> globals \<Rightarrow> real list \<Rightarrow> error + real list" where
  "signal_envelope lib g data =
     (case preprocessing lib g data of
        Inl e \<Rightarrow> Inl e
      | Inr data_signal \<Rightarrow> create_single_envelope lib data_signal)"

text \<open>
  Instances for evaluating the functions on examples: a library whose filter has the
  coefficients \<open>b = a = [1]\<close> and returns the signal as it is and whose analytic signal
  has no imaginary part, an increasing stand-in for the quantile function, and the
  globals as the notebook sets them, for given corpora.
\<close>

definition identity_lib :: signal_lib where
  "identity_lib =
     \<lparr>butter = (\<lambda>order Wn fs. Inr ([1], [1])),
      filtfilt = (\<lambda>b a x. Inr x),
      hilbert = (\<lambda>x. Inr (map complex_of_real x))\<rparr>"

definition linear_ppf :: "real \<Rightarrow> npfloat" where
  "linear_ppf p = (if 0 < p \<and> p < 1 then Fin (4 * p - 2) else NaN)"

definition notebook_globals :: "real list list \<Rightarrow> real list list \<Rightarrow> globals" where
  "notebook_globals train test =
     \<lparr>sampling_rate = 25600, CONFIDENCE_LVL = 95 / 100, train_data = train, test_data = test\<rparr>"

text \<open>
  Exact arithmetic on reals, with NaN, as an instance of the float parameters: the
  operations of \<^verbatim>\<open>check_parts\<close> above, and a division.
\<close>

definition np_div :: "npfloat \<Rightarrow> npfloat \<Rightarrow> npfloat" where
  "np_div a b = (case (a, b) of (Fin x, Fin y) \<Rightarrow> if y = 0 then NaN else Fin (x / y) | _ \<Rightarrow> NaN)"

definition exact_float_lib :: "(real \<Rightarrow> npfloat) \<Rightarrow> (npfloat, ndarray) float_lib" where
  "exact_float_lib ppf =
     \<lparr>fl_of_int = (\<lambda>n. Fin (of_int n)), fl_add = np_add, fl_mul = np_mul, fl_div = np_div,
      fl_gt = np_gt, fl_mean = np_mean, fl_std = np_std,
      fl_ppf = (\<lambda>p. case p of Fin x \<Rightarrow> ppf x | NaN \<Rightarrow> NaN)\<rparr>"

section \<open>The loop of the classifier\<close>

lemma check_loop_threshold: "threshold (check_loop idx ps s) = threshold s"
  by (induction ps arbitrary: idx s) (simp_all add: Let_def)

lemma check_loop_indexes:
  "indexes_bad_parts (check_loop idx ps s) =
     indexes_bad_parts s @ map fst (filter (\<lambda>(i, p). exceeds (threshold s) p) (List.enumerate idx ps))"
  by (induction ps arbitrary: idx s) (simp_all add: Let_def exceeds_def check_loop_threshold)

lemma check_loop_data:
  "data_bad_parts (check_loop idx ps s) =
     data_bad_parts s @ map snd (filter (\<lambda>(i, p). exceeds (threshold s) p) (List.enumerate idx ps))"
  by (induction ps arbitrary: idx s) (simp_all add: Let_def exceeds_def check_loop_threshold)

lemma threshold_check_init:
  "threshold (check_init ppf g envelope) =
     np_add (np_mean envelope) (np_mul (ppf ((1 + CONFIDENCE_LVL g) / 2)) (np_std envelope))"
  by (simp add: check_init_def Let_def)

lemma check_parts_enumerate:
  "check_parts ppf g parts envelope =
     Inr (map snd (filter (\<lambda>(i, p). exceeds (threshold (check_init ppf g envelope)) p) (List.enumerate 0 parts)),
          map fst (filter (\<lambda>(i, p). exceeds (threshold (check_init ppf g envelope)) p) (List.enumerate 0 parts)))"
  by (simp add: check_parts_def check_parts_run_def Let_def check_loop_indexes check_loop_data check_init_def)

lemma sorted_fst_filter_enumerate:
  "sorted_wrt (<) (map fst (filter P (List.enumerate n xs)))"
proof -
  have "sorted_wrt (<) (map fst (List.enumerate n xs))"
    by simp
  then have "sorted_wrt (\<lambda>x y. fst x < fst y) (List.enumerate n xs)"
    unfolding sorted_wrt_map .
  then have "sorted_wrt (\<lambda>x y. fst x < fst y) (filter P (List.enumerate n xs))"
    by (rule sorted_wrt_filter)
  then show ?thesis
    unfolding sorted_wrt_map .
qed


lemma nth_filter_enumerate:
  assumes "k < length (filter P (List.enumerate 0 xs))"
  shows "fst (filter P (List.enumerate 0 xs) ! k) < length xs
       \<and> snd (filter P (List.enumerate 0 xs) ! k) = xs ! fst (filter P (List.enumerate 0 xs) ! k)"
proof -
  have "filter P (List.enumerate 0 xs) ! k \<in> set (filter P (List.enumerate 0 xs))"
    using assms by (rule nth_mem)
  then have "filter P (List.enumerate 0 xs) ! k \<in> set (List.enumerate 0 xs)" by simp
  then show ?thesis by (auto simp: in_set_enumerate_eq)
qed


text \<open>The loop over any float arithmetic is a filter of the enumerated corpus.\<close>

lemma check_loop_fl_filter:
  "check_loop_fl fl thr idx ps (bad, idxs) =
     (bad @ map snd (filter (\<lambda>(i, p). fl_gt fl (fl_mean fl p) thr) (List.enumerate idx ps)),
      idxs @ map fst (filter (\<lambda>(i, p). fl_gt fl (fl_mean fl p) thr) (List.enumerate idx ps)))"
  by (induction ps arbitrary: idx bad idxs) (simp_all add: Let_def)

text \<open>
  \<^verbatim>\<open>check_parts\<close> on exact reals is \<^verbatim>\<open>check_parts_fl\<close> at the exact instance.
\<close>

lemma filter_enumerate_map:
  "filter (\<lambda>(i, p). P p) (List.enumerate n (map f xs))
     = map (\<lambda>(i, p). (i, f p)) (filter (\<lambda>(i, p). P (f p)) (List.enumerate n xs))"
  by (induction xs arbitrary: n) simp_all

lemma check_parts_exact_instance:
  assumes "check_parts ppf g parts envelope = Inr (bad, idxs)"
  shows "check_parts_fl (exact_float_lib ppf) (Fin (CONFIDENCE_LVL g)) (map Array parts) envelope
           = Inr (map Array bad, idxs)"
proof -
  let ?fl = "exact_float_lib ppf"
  have thr: "check_threshold_fl ?fl (Fin (CONFIDENCE_LVL g)) envelope = threshold (check_init ppf g envelope)"
    by (simp add: check_threshold_fl_def exact_float_lib_def np_div_def check_init_def Let_def)
  let ?T = "threshold (check_init ppf g envelope)"
  have sel: "filter (\<lambda>(i, p). fl_gt ?fl (fl_mean ?fl p) ?T) (List.enumerate 0 (map Array parts))
               = map (\<lambda>(i, p). (i, Array p)) (filter (\<lambda>(i, p). exceeds ?T p) (List.enumerate 0 parts))"
    by (simp add: exceeds_def exact_float_lib_def filter_enumerate_map del: np_mean.simps)
  let ?sel = "filter (\<lambda>(i, p). exceeds ?T p) (List.enumerate 0 parts)"
  from assms have bad: "bad = map snd ?sel" and idxs: "idxs = map fst ?sel"
    by (simp_all add: check_parts_enumerate)
  show ?thesis
    by (simp add: check_parts_fl_def check_loop_fl_filter thr sel bad idxs
          comp_def case_prod_beta)
qed

section \<open>Threshold and classification\<close>

lemma threshold_run: "threshold (check_parts_run ppf g parts envelope) =
   np_add (np_mean envelope) (np_mul (ppf ((1 + CONFIDENCE_LVL g) / 2)) (np_std envelope))"
  by (simp add: check_parts_run_def check_loop_threshold threshold_check_init)

section \<open>The training loop\<close>

lemma preprocessing_globals:
  "sampling_rate g1 = sampling_rate g2 \<Longrightarrow> preprocessing lib g1 d = preprocessing lib g2 d"
  by (simp add: preprocessing_def bandpass_filter_def)

lemma envelope_loop_globals:
  "train_data g1 = train_data g2 \<Longrightarrow> sampling_rate g1 = sampling_rate g2 \<Longrightarrow>
     envelope_loop lib g1 n i acc = envelope_loop lib g2 n i acc"
proof (induction lib g1 n i acc rule: envelope_loop.induct)
  case (1 lib g n_parts i single_envelopes)
  have pre: "preprocessing lib g d = preprocessing lib g2 d" for d
    using "1.prems"(2) by (rule preprocessing_globals)
  show ?case
  proof (cases "i < n_parts")
    case False
    then show ?thesis by (simp add: envelope_loop.simps)
  next
    case True
    have step: "envelope_loop lib g n_parts (i + 1) (single_envelopes @ [env])
                  = envelope_loop lib g2 n_parts (i + 1) (single_envelopes @ [env])"
      if "py_index (train_data g) i = Inr d" and "preprocessing lib g d = Inr ds"
        and "create_single_envelope lib ds = Inr env" for d ds env
      using "1.IH" [OF True that] "1.prems" by simp
    show ?thesis
      using True "1.prems"(1) step
      by (subst envelope_loop.simps, subst (2) envelope_loop.simps)
         (simp add: pre split: sum.splits)
  qed
qed

lemma preprocessing_not_IndexError: "preprocessing lib g d \<noteq> Inl IndexError"
  by (simp add: preprocessing_def bandpass_filter_def split: sum.splits prod.splits)

lemma create_single_envelope_not_IndexError: "create_single_envelope lib d \<noteq> Inl IndexError"
  by (simp add: create_single_envelope_def split: sum.splits)

lemma np_mean_axis0_not_IndexError: "np_mean_axis0 rows \<noteq> Inl IndexError"
  by (simp add: np_mean_axis0_def split: list.splits)

lemma py_index_in_range: "0 \<le> i \<Longrightarrow> i < int (length xs) \<Longrightarrow> py_index xs i = Inr (xs ! nat i)"
  by (simp add: py_index_def)

lemma envelope_loop_not_IndexError:
  "0 \<le> i \<Longrightarrow> n \<le> int (length (train_data g)) \<Longrightarrow> envelope_loop lib g n i acc \<noteq> Inl IndexError"
proof (induction lib g n i acc rule: envelope_loop.induct)
  case (1 lib g n_parts i single_envelopes)
  show ?case
  proof (cases "i < n_parts")
    case False
    then show ?thesis by (simp add: envelope_loop.simps [of lib g n_parts i])
  next
    case True
    note unfold = envelope_loop.simps [of lib g n_parts i single_envelopes]
    from True "1.prems" have idx: "py_index (train_data g) i = Inr (train_data g ! nat i)"
      by (simp add: py_index_in_range)
    show ?thesis
    proof (cases "preprocessing lib g (train_data g ! nat i)")
      case (Inl e)
      with True idx preprocessing_not_IndexError [of lib g "train_data g ! nat i"] show ?thesis
        by (simp add: unfold)
    next
      case pre: (Inr data_signal)
      show ?thesis
      proof (cases "create_single_envelope lib data_signal")
        case (Inl e)
        with True idx pre create_single_envelope_not_IndexError [of lib data_signal] show ?thesis
          by (simp add: unfold)
      next
        case (Inr env)
        have "envelope_loop lib g n_parts (i + 1) (single_envelopes @ [env]) \<noteq> Inl IndexError"
          using "1.IH" [OF True idx pre Inr] "1.prems" by simp
        with True idx pre Inr show ?thesis by (simp add: unfold)
      qed
    qed
  qed
qed

lemma np_mean_axis0_single: "np_mean_axis0 [env] = Inr (Array env)"
proof -
  have "map (\<lambda>j. env ! j) [0..<length env] = env"
    by (rule map_nth)
  then show ?thesis by (simp add: np_mean_axis0_def)
qed

lemma envelope_loop_success:
  "0 \<le> i \<Longrightarrow> n \<le> int (length (train_data g)) \<Longrightarrow>
   \<forall>d \<in> set (train_data g). \<exists>env. signal_envelope lib g d = Inr env \<and> length env = L \<Longrightarrow>
   \<forall>e \<in> set acc. length e = L \<Longrightarrow>
   \<exists>envs. envelope_loop lib g n i acc = Inr envs \<and> (\<forall>e \<in> set envs. length e = L)
          \<and> length envs = length acc + nat (n - i)"
proof (induction lib g n i acc rule: envelope_loop.induct)
  case (1 lib g n_parts i single_envelopes)
  note unfold = envelope_loop.simps [of lib g n_parts i single_envelopes]
  show ?case
  proof (cases "i < n_parts")
    case False
    with "1.prems"(4) show ?thesis by (simp add: unfold)
  next
    case True
    with "1.prems" have idx: "py_index (train_data g) i = Inr (train_data g ! nat i)"
      by (simp add: py_index_in_range)
    from True "1.prems" have "train_data g ! nat i \<in> set (train_data g)"
      by simp
    with "1.prems"(3) obtain env
      where env: "signal_envelope lib g (train_data g ! nat i) = Inr env" "length env = L"
      by blast
    from env(1) obtain data_signal
      where pre: "preprocessing lib g (train_data g ! nat i) = Inr data_signal"
        and cse: "create_single_envelope lib data_signal = Inr env"
      by (auto simp: signal_envelope_def split: sum.splits)
    have "\<forall>e \<in> set (single_envelopes @ [env]). length e = L"
      using "1.prems"(4) env(2) by simp
    with "1.IH" [OF True idx pre cse] "1.prems"
    obtain envs where r: "envelope_loop lib g n_parts (i + 1) (single_envelopes @ [env]) = Inr envs"
      "\<forall>e \<in> set envs. length e = L"
      "length envs = length (single_envelopes @ [env]) + nat (n_parts - (i + 1))"
      by auto
    from r(3) True "1.prems"(1) have "length envs = length single_envelopes + nat (n_parts - i)"
      by simp
    with r(1,2) True idx pre cse show ?thesis by (simp add: unfold)
  qed
qed

lemma np_mean_axis0_success:
  "rows \<noteq> [] \<Longrightarrow> \<forall>e \<in> set rows. length e = L \<Longrightarrow>
     \<exists>E. np_mean_axis0 rows = Inr (Array E) \<and> length E = L"
  by (cases rows) (simp_all add: np_mean_axis0_def)

section \<open>Filtering\<close>

text \<open>
  \<^verbatim>\<open>bandpass_filter\<close> has no check of its own: it raises exactly when one of the two
  library calls raises, with that exception.
\<close>

lemma bandpass_filter_raises_iff:
  "bandpass_filter lib g data lowcut highcut order = Inl e \<longleftrightarrow>
     (\<exists>msg. e = SciPyError msg \<and>
        (butter lib order (lowcut, highcut) (sampling_rate g) = Inl msg
         \<or> (\<exists>b a. butter lib order (lowcut, highcut) (sampling_rate g) = Inr (b, a)
                  \<and> filtfilt lib b a data = Inl msg)))"
  by (auto simp: bandpass_filter_def split: sum.splits prod.splits)

section \<open>The example instances\<close>

lemma identity_lib_preprocessing: "preprocessing identity_lib g d = Inr (map abs d)"
  by (simp add: preprocessing_def bandpass_filter_def identity_lib_def)

lemma identity_lib_envelope: "create_single_envelope identity_lib d = Inr (map abs d)"
  by (simp add: create_single_envelope_def identity_lib_def comp_def)

section \<open>The claims\<close>



text \<open>
  Claim C3, as the code has it. On an empty training corpus \<^verbatim>\<open>train_envelope\<close> raises
  nothing, for every requested count: the loop does not run, \<^verbatim>\<open>np.mean([], axis=0)\<close>
  is the scalar NaN and that is returned; the notice is printed when the count is
  positive.
\<close>

theorem train_envelope_empty_corpus:
  assumes "train_data g = []"
  shows "train_envelope lib g n =
           (if 0 < n then [''Only 0 files in directory!''] else [], Inr (Scalar NaN))"
  using assms
  by (simp add: train_envelope_def Let_def np_mean_axis0_def digit_char_def
        envelope_loop.simps [of lib g _ 0])

text \<open>The theorem at a concrete input.\<close>

theorem train_envelope_empty_corpus_witness:
  "train_data (notebook_globals [] [[1, 2]]) = []
   \<and> train_envelope identity_lib (notebook_globals [] [[1, 2]]) 400
       = ([''Only 0 files in directory!''], Inr (Scalar NaN))"
proof -
  have h: "train_data (notebook_globals [] [[1, 2]]) = []"
    by (simp add: notebook_globals_def)
  from train_envelope_empty_corpus [OF h, of identity_lib 400] h show ?thesis by simp
qed

text \<open>A concrete run that returns where an error was expected.\<close>

theorem train_envelope_empty_corpus_counterexample:
  "train_envelope identity_lib (notebook_globals [] []) 5
     = ([''Only 0 files in directory!''], Inr (Scalar NaN))"
  by (simp add: train_envelope_def notebook_globals_def Let_def np_mean_axis0_def digit_char_def
        envelope_loop.simps [of _ _ _ 0])

text \<open>
  Claim C5, as the code has it. On an empty reference envelope \<^verbatim>\<open>check_parts\<close> raises
  nothing, for every test corpus: mean, standard deviation and threshold are NaN, no
  comparison with it holds, and the two returned lists are empty.
\<close>

theorem check_parts_empty_envelope:
  "check_parts ppf g parts (Array []) = Inr ([], [])"
  by (simp add: check_parts_enumerate threshold_check_init exceeds_def)

text \<open>The theorem at a concrete input.\<close>

theorem check_parts_empty_envelope_witness:
  "check_parts linear_ppf (notebook_globals [] []) [[1], [10], [20]] (Array []) = Inr ([], [])"
  by (rule check_parts_empty_envelope)

text \<open>A concrete run that returns where an error was expected.\<close>

theorem check_parts_empty_envelope_counterexample:
  "check_parts linear_ppf (notebook_globals [] []) [[5], [0]] (Array []) = Inr ([], [])"
  by (simp add: check_parts_def check_parts_run_def check_init_def Let_def)

text \<open>
  Claim C6. For a non-empty training corpus of \<open>N\<close> signals and a requested count
  \<open>n > N\<close>, \<^verbatim>\<open>train_envelope\<close> prints the notice \<^verbatim>\<open>Only N files in directory!\<close> and
  goes on with \<open>N\<close>: what it returns is what the call with \<open>n = N\<close> returns (which
  prints nothing), the subscript \<^verbatim>\<open>train_data[i]\<close> never raises, and when the library
  accepts every training signal and the envelopes have one length \<open>L\<close>, an envelope of
  length \<open>L\<close> is returned.
\<close>

theorem train_envelope_clamps:
  assumes "train_data g \<noteq> []" and "int (length (train_data g)) < n"
  shows "fst (train_envelope lib g n)
           = [''Only '' @ str_nat (length (train_data g)) @ '' files in directory!'']
       \<and> fst (train_envelope lib g (int (length (train_data g)))) = []
       \<and> snd (train_envelope lib g n) = snd (train_envelope lib g (int (length (train_data g))))
       \<and> snd (train_envelope lib g n) \<noteq> Inl IndexError
       \<and> ((\<forall>d \<in> set (train_data g). \<exists>env. signal_envelope lib g d = Inr env \<and> length env = L)
            \<longrightarrow> (\<exists>E. snd (train_envelope lib g n) = Inr (Array E) \<and> length E = L))"
proof -
  let ?N = "int (length (train_data g))"
  have out: "fst (train_envelope lib g n)
           = [''Only '' @ str_nat (length (train_data g)) @ '' files in directory!'']"
    using assms(2) by (simp add: train_envelope_def Let_def)
  have quiet: "fst (train_envelope lib g ?N) = []"
    by (simp add: train_envelope_def Let_def)
  have same: "snd (train_envelope lib g n) = snd (train_envelope lib g ?N)"
    using assms(2) by (simp add: train_envelope_def Let_def)
  have "envelope_loop lib g ?N 0 [] \<noteq> Inl IndexError"
    by (rule envelope_loop_not_IndexError) simp_all
  then have noidx: "snd (train_envelope lib g ?N) \<noteq> Inl IndexError"
    using np_mean_axis0_not_IndexError
    by (auto simp: train_envelope_def Let_def split: sum.splits)
  have good: "\<exists>E. snd (train_envelope lib g ?N) = Inr (Array E) \<and> length E = L"
    if ok: "\<forall>d \<in> set (train_data g). \<exists>env. signal_envelope lib g d = Inr env \<and> length env = L"
  proof -
    from envelope_loop_success [of 0 ?N g lib L "[]"] ok
    obtain envs where envs: "envelope_loop lib g ?N 0 [] = Inr envs"
      "\<forall>e \<in> set envs. length e = L" "length envs = length (train_data g)"
      by auto
    from envs(3) assms(1) have "envs \<noteq> []" by auto
    from np_mean_axis0_success [OF this envs(2)] envs(1) show ?thesis
      by (simp add: train_envelope_def Let_def)
  qed
  from out quiet same noidx good show ?thesis by simp
qed

text \<open>The theorem at a concrete input.\<close>

theorem train_envelope_clamps_witness:
  "train_data (notebook_globals [[1, - 3], [3, 1]] []) \<noteq> []
   \<and> int (length (train_data (notebook_globals [[1, - 3], [3, 1]] []))) < 10000
   \<and> train_envelope identity_lib (notebook_globals [[1, - 3], [3, 1]] []) 10000
       = ([''Only 2 files in directory!''], Inr (Array [2, 2]))
   \<and> train_envelope identity_lib (notebook_globals [[1, - 3], [3, 1]] []) 2
       = ([], Inr (Array [2, 2]))"
proof -
  let ?g = "notebook_globals [[1, - 3], [3, 1]] []"
  have h1: "train_data ?g \<noteq> []" by (simp add: notebook_globals_def)
  have h2: "int (length (train_data ?g)) < 10000" by (simp add: notebook_globals_def)
  have len: "length (train_data ?g) = 2" by (simp add: notebook_globals_def)
  have loop: "envelope_loop identity_lib ?g 2 0 [] = Inr [[1, 3], [3, 1]]"
    by (simp add: envelope_loop.simps [of identity_lib _ 2] py_index_def notebook_globals_def
          identity_lib_preprocessing identity_lib_envelope)
  have two: "train_envelope identity_lib ?g 2 = ([], Inr (Array [2, 2]))"
    by (simp add: train_envelope_def Let_def len loop np_mean_axis0_def)
  from train_envelope_clamps [OF h1 h2, of identity_lib]
  have "fst (train_envelope identity_lib ?g 10000) = [''Only 2 files in directory!'']"
    and "snd (train_envelope identity_lib ?g 10000) = snd (train_envelope identity_lib ?g 2)"
    by (simp_all add: len digit_char_def)
  with two have "train_envelope identity_lib ?g 10000 = ([''Only 2 files in directory!''], Inr (Array [2, 2]))"
    by (simp add: prod_eq_iff)
  with h1 h2 two show ?thesis by simp
qed

text \<open>
  Claim C7. For every reference envelope and test corpus, the indices returned by
  \<^verbatim>\<open>check_parts\<close> are strictly increasing, there are as many returned signals as
  indices, and the \<open>k\<close>-th returned signal is the entry of the test corpus at the
  \<open>k\<close>-th returned index.
\<close>

theorem check_parts_order:
  "\<exists>bad idxs. check_parts ppf g parts envelope = Inr (bad, idxs)
      \<and> sorted_wrt (<) idxs \<and> length bad = length idxs
      \<and> (\<forall>k<length idxs. idxs ! k < length parts \<and> bad ! k = parts ! (idxs ! k))"
proof -
  let ?sel = "filter (\<lambda>(i, p). exceeds (threshold (check_init ppf g envelope)) p) (List.enumerate 0 parts)"
  have res: "check_parts ppf g parts envelope = Inr (map snd ?sel, map fst ?sel)"
    by (rule check_parts_enumerate)
  have srt: "sorted_wrt (<) (map fst ?sel)"
    by (rule sorted_fst_filter_enumerate)
  have nth: "\<forall>k<length (map fst ?sel). map fst ?sel ! k < length parts
                \<and> map snd ?sel ! k = parts ! (map fst ?sel ! k)"
    using nth_filter_enumerate [of _ "\<lambda>(i, p). exceeds (threshold (check_init ppf g envelope)) p" parts]
    by simp
  from res srt nth show ?thesis by (intro exI conjI) (assumption, assumption, simp, assumption)
qed

text \<open>The theorem at a concrete input.\<close>

theorem check_parts_order_witness:
  "check_parts linear_ppf (notebook_globals [] []) [[1], [10], [20]] (Array [1, 3])
      = Inr ([[10], [20]], [1, 2])
   \<and> sorted_wrt (<) [1, 2 :: nat] \<and> length [[10], [20 :: real]] = length [1, 2 :: nat]
   \<and> [1, 2 :: nat] ! 1 < length [[1], [10], [20 :: real]]
   \<and> [[10], [20]] ! 1 = [[1], [10], [20 :: real]] ! ([1, 2] ! 1)"
proof -
  have c: "check_parts linear_ppf (notebook_globals [] []) [[1], [10], [20]] (Array [1, 3])
      = Inr ([[10], [20]], [1, 2])"
    by (simp add: check_parts_def check_parts_run_def check_init_def linear_ppf_def
          notebook_globals_def Let_def)
  from check_parts_order [of linear_ppf "notebook_globals [] []" "[[1], [10], [20]]" "Array [1, 3]"]
  obtain bad idxs where
    r: "check_parts linear_ppf (notebook_globals [] []) [[1], [10], [20]] (Array [1, 3]) = Inr (bad, idxs)"
    and p: "sorted_wrt (<) idxs" "length bad = length idxs"
      "\<forall>k<length idxs. idxs ! k < length [[1], [10], [20 :: real]] \<and> bad ! k = [[1], [10], [20]] ! (idxs ! k)"
    by blast
  from r c have e: "bad = [[10], [20]]" "idxs = [1, 2]" by simp_all
  from p(3) e have "idxs ! 1 < length [[1], [10], [20 :: real]] \<and> bad ! 1 = [[1], [10], [20]] ! (idxs ! 1)"
    by simp
  with c p(1,2) e show ?thesis by simp
qed

text \<open>
  Claim C8. Two runs of \<^verbatim>\<open>check_parts\<close> on the same reference envelope with the same
  confidence level compute the same threshold, whatever the test corpora passed and
  whatever the other globals; two runs of \<^verbatim>\<open>train_envelope\<close> with the same count, on
  globals with the same training corpus and sampling rate, print and return the same,
  whatever the test data and the confidence level.
\<close>

theorem pipeline_independent_of_test_data:
  "(CONFIDENCE_LVL g1 = CONFIDENCE_LVL g2 \<longrightarrow>
      threshold (check_parts_run ppf g1 parts1 envelope)
        = threshold (check_parts_run ppf g2 parts2 envelope))
   \<and> (train_data g1 = train_data g2 \<and> sampling_rate g1 = sampling_rate g2 \<longrightarrow>
        train_envelope lib g1 n = train_envelope lib g2 n)"
proof (intro conjI impI)
  assume "CONFIDENCE_LVL g1 = CONFIDENCE_LVL g2"
  then show "threshold (check_parts_run ppf g1 parts1 envelope)
        = threshold (check_parts_run ppf g2 parts2 envelope)"
    by (simp add: threshold_run)
next
  assume a: "train_data g1 = train_data g2 \<and> sampling_rate g1 = sampling_rate g2"
  then have "envelope_loop lib g1 m 0 [] = envelope_loop lib g2 m 0 []" for m
    by (intro envelope_loop_globals) simp_all
  with a show "train_envelope lib g1 n = train_envelope lib g2 n"
    by (simp add: train_envelope_def Let_def)
qed

text \<open>The theorem at a concrete input.\<close>

theorem pipeline_independent_of_test_data_witness:
  "threshold (check_parts_run linear_ppf (notebook_globals [[1, - 3]] [[5]]) [[5]] (Array [1, 3]))
     = threshold (check_parts_run linear_ppf (notebook_globals [[1, - 3]] [[7, 8], [9]]) [[7, 8], [9]] (Array [1, 3]))
   \<and> train_envelope identity_lib (notebook_globals [[1, - 3]] [[5]]) 1
     = train_envelope identity_lib (notebook_globals [[1, - 3]] [[7, 8], [9]]) 1"
proof -
  let ?g1 = "notebook_globals [[1, - 3]] [[5]]" and ?g2 = "notebook_globals [[1, - 3]] [[7, 8], [9]]"
  have c: "CONFIDENCE_LVL ?g1 = CONFIDENCE_LVL ?g2"
    and t: "train_data ?g1 = train_data ?g2 \<and> sampling_rate ?g1 = sampling_rate ?g2"
    by (simp_all add: notebook_globals_def)
  from pipeline_independent_of_test_data [of ?g1 ?g2 linear_ppf "[[5]]" "Array [1, 3]" "[[7, 8], [9]]" identity_lib 1] c t
  show ?thesis by blast
qed

text \<open>
  Claim C9. On a corpus with at least one signal, \<^verbatim>\<open>train_envelope(1)\<close> returns exactly
  \<^verbatim>\<open>create_single_envelope(preprocessing(train_data[0]))\<close>, or raises what that raises:
  the mean of a single envelope is that envelope.
\<close>

theorem train_envelope_one:
  assumes "train_data g \<noteq> []"
  shows "snd (train_envelope lib g 1) =
           (case preprocessing lib g (train_data g ! 0) of
              Inl e \<Rightarrow> Inl e
            | Inr data_signal \<Rightarrow>
                (case create_single_envelope lib data_signal of
                   Inl e \<Rightarrow> Inl e
                 | Inr env \<Rightarrow> Inr (Array env)))"
proof -
  have len: "0 < length (train_data g)" using assms by simp
  then have clamp: "\<not> int (length (train_data g)) < 1" by simp
  have idx: "py_index (train_data g) 0 = Inr (train_data g ! 0)"
    using len by (simp add: py_index_def)
  have stop: "envelope_loop lib g 1 1 acc = Inr acc" for acc
    by (simp add: envelope_loop.simps [of lib g 1 1])
  have "envelope_loop lib g 1 0 [] =
          (case preprocessing lib g (train_data g ! 0) of
              Inl e \<Rightarrow> Inl e
            | Inr data_signal \<Rightarrow>
                (case create_single_envelope lib data_signal of
                   Inl e \<Rightarrow> Inl e
                 | Inr env \<Rightarrow> Inr [env]))"
    by (subst envelope_loop.simps) (simp add: idx stop split: sum.splits)
  then show ?thesis
    using clamp by (simp add: train_envelope_def Let_def np_mean_axis0_single split: sum.splits)
qed

text \<open>The theorem at a concrete input.\<close>

theorem train_envelope_one_witness:
  "train_data (notebook_globals [[1, - 3], [3, 1, 4]] []) \<noteq> []
   \<and> snd (train_envelope identity_lib (notebook_globals [[1, - 3], [3, 1, 4]] []) 1) = Inr (Array [1, 3])"
proof -
  let ?g = "notebook_globals [[1, - 3], [3, 1, 4]] []"
  have h: "train_data ?g \<noteq> []" by (simp add: notebook_globals_def)
  from train_envelope_one [OF h, of identity_lib] h show ?thesis
    by (simp add: identity_lib_preprocessing identity_lib_envelope notebook_globals_def)
qed

end
